theory Spec2Isabelle
  imports Main "HOL-Library.Word" "HOL-Library.Signed_Division"
begin

unbundle bit_operations_syntax

section \<open>IEI WT61P803 PUZZLE MCU hwmon driver\<close>

text \<open>
  A shallow embedding of \<^verbatim>\<open>drivers/hwmon/iei-wt61p803-puzzle-hwmon.c\<close>.
  Every driver function takes the device structure and returns it updated; the value a
  function stores through an output pointer is returned as an option (\<open>None\<close>: the
  function returned without storing anything there).
\<close>

subsection \<open>C types\<close>

text \<open>
  \<^verbatim>\<open>unsigned char\<close> is 8 bits, \<^verbatim>\<open>int\<close> and \<^verbatim>\<open>u32\<close> are 32 bits,
  \<^verbatim>\<open>long\<close> and \<^verbatim>\<open>unsigned long\<close> are 64 bits (LP64, as on the arm64 board the
  driver is written for), \<^verbatim>\<open>umode_t\<close> is an \<^verbatim>\<open>unsigned short\<close>. Signed types are
  read with \<open>sint\<close>, unsigned ones with \<open>uint\<close> or \<open>unat\<close>.
\<close>

type_synonym u8 = "8 word"
type_synonym u32 = "32 word"
type_synonym c_int = "32 word"
type_synonym c_long = "64 word"
type_synonym c_ulong = "64 word"
type_synonym umode_t = "16 word"

text \<open>C's \<^verbatim>\<open>/\<close> on \<^verbatim>\<open>int\<close>: the quotient is truncated towards zero.\<close>

definition c_int_div :: "c_int \<Rightarrow> c_int \<Rightarrow> c_int" where
  "c_int_div a b = word_of_int (sint a sdiv sint b)"

text \<open>The errno values of \<^verbatim>\<open>include/uapi/asm-generic/errno-base.h\<close>.\<close>

definition EIO :: c_int where
  "EIO = 5"

definition EINVAL :: c_int where
  "EINVAL = 22"

text \<open>The permission bits \<^verbatim>\<open>0444\<close> and \<^verbatim>\<open>0644\<close> (octal).\<close>

definition mode_0444 :: umode_t where
  "mode_0444 = 4 * 64 + 4 * 8 + 4"

definition mode_0644 :: umode_t where
  "mode_0644 = 6 * 64 + 4 * 8 + 4"

text \<open>The driver's own constants.\<close>

definition IEI_WT61P803_PUZZLE_HWMON_MAX_PWM :: nat where
  "IEI_WT61P803_PUZZLE_HWMON_MAX_PWM = 2"

definition IEI_WT61P803_PUZZLE_HWMON_MAX_PWM_VAL :: c_int where
  "IEI_WT61P803_PUZZLE_HWMON_MAX_PWM_VAL = 255"

subsection \<open>What the driver takes from its headers\<close>

text \<open>
  The protocol constants and macros of \<^verbatim>\<open>linux/mfd/iei-wt61p803-puzzle.h\<close> are not
  part of this source file; they are a parameter of every function that uses them.
  \<open>IEI_WT61P803_PUZZLE_CMD_FAN_RPM\<close> and \<open>IEI_WT61P803_PUZZLE_CMD_FAN_PWM\<close> are the
  macros applied to a channel, as the byte that the driver stores into the command array.
\<close>

record puzzle_header =
  IEI_WT61P803_PUZZLE_BUF_SIZE :: nat
  IEI_WT61P803_PUZZLE_CMD_HEADER_START :: u8
  IEI_WT61P803_PUZZLE_CMD_RESPONSE_OK :: u8
  IEI_WT61P803_PUZZLE_CHECKSUM_RESPONSE_OK :: u8
  IEI_WT61P803_PUZZLE_CMD_TEMP :: u8
  IEI_WT61P803_PUZZLE_CMD_TEMP_ALL :: u8
  IEI_WT61P803_PUZZLE_CMD_FAN :: u8
  IEI_WT61P803_PUZZLE_CMD_FAN_PWM_READ :: u8
  IEI_WT61P803_PUZZLE_CMD_FAN_PWM_WRITE :: u8
  IEI_WT61P803_PUZZLE_CMD_FAN_PWM :: "c_int \<Rightarrow> u8"
  IEI_WT61P803_PUZZLE_CMD_FAN_RPM :: "c_int \<Rightarrow> u8"

text \<open>
  The sensor kinds of \<^verbatim>\<open>enum hwmon_sensor_types\<close> and the three attribute numbers of
  \<^verbatim>\<open>linux/hwmon.h\<close> that the driver compares \<^verbatim>\<open>attr\<close> with; the numbers are a
  parameter as well.
\<close>

datatype hwmon_sensor_types =
  hwmon_chip | hwmon_temp | hwmon_in | hwmon_curr | hwmon_power | hwmon_energy
  | hwmon_humidity | hwmon_fan | hwmon_pwm | hwmon_intrusion

record hwmon_header =
  hwmon_pwm_input :: u32
  hwmon_fan_input :: u32
  hwmon_temp_input :: u32

subsection \<open>The device structure\<close>

text \<open>
  What happens to the device is recorded in \<open>history\<close>: taking and releasing the mutex,
  each command handed to the bus transport (which fills the response buffer), and each
  read of a byte of the response buffer.
\<close>

datatype event =
  Mutex_Lock
  | Mutex_Unlock
  | Write_Command "u8 list"
  | Response_Read nat

text \<open>
  \<^verbatim>\<open>struct iei_wt61p803_puzzle_hwmon\<close>. \<open>mcu\<close> is the state behind the parent's
  handle, \<open>lock\<close> tells whether the mutex is held.
\<close>

record 'm iei_wt61p803_puzzle_hwmon =
  mcu :: 'm
  response_buffer :: "u8 list"
  thermal_cooling_dev_present :: "bool list"
  lock :: bool
  history :: "event list"

text \<open>\<^verbatim>\<open>struct iei_wt61p803_puzzle_thermal_cooling_device\<close>, without its two pointers.\<close>

record iei_wt61p803_puzzle_thermal_cooling_device =
  name :: string
  pwm_channel :: c_int
  cooling_levels :: "u8 list"

text \<open>
  The device structure as \<^verbatim>\<open>iei_wt61p803_puzzle_hwmon_probe\<close> allocates it:
  \<^verbatim>\<open>devm_kzalloc\<close> zeroes the buffer and the presence flags, \<^verbatim>\<open>mutex_init\<close> leaves
  the mutex free.
\<close>

definition iei_wt61p803_puzzle_hwmon_alloc :: "puzzle_header \<Rightarrow> 'm \<Rightarrow> 'm iei_wt61p803_puzzle_hwmon" where
  "iei_wt61p803_puzzle_hwmon_alloc K m =
     \<lparr>mcu = m,
      response_buffer = replicate (IEI_WT61P803_PUZZLE_BUF_SIZE K) 0,
      thermal_cooling_dev_present = replicate IEI_WT61P803_PUZZLE_HWMON_MAX_PWM False,
      lock = False,
      history = []\<rparr>"

text \<open>\<^verbatim>\<open>mutex_lock\<close> returns with the mutex held, \<^verbatim>\<open>mutex_unlock\<close> releases it.\<close>

definition mutex_lock :: "'m iei_wt61p803_puzzle_hwmon \<Rightarrow> 'm iei_wt61p803_puzzle_hwmon" where
  "mutex_lock s = s\<lparr>lock := True, history := history s @ [Mutex_Lock]\<rparr>"

definition mutex_unlock :: "'m iei_wt61p803_puzzle_hwmon \<Rightarrow> 'm iei_wt61p803_puzzle_hwmon" where
  "mutex_unlock s = s\<lparr>lock := False, history := history s @ [Mutex_Unlock]\<rparr>"

text \<open>Reading \<^verbatim>\<open>resp_buf[i]\<close>.\<close>

definition resp_buf :: "'m iei_wt61p803_puzzle_hwmon \<Rightarrow> nat \<Rightarrow> u8 \<times> 'm iei_wt61p803_puzzle_hwmon" where
  "resp_buf s i = (response_buffer s ! i, s\<lparr>history := history s @ [Response_Read i]\<rparr>)"

subsection \<open>The bus transport\<close>

text \<open>
  The transport of the parent driver: from the state of the MCU and the command bytes to
  the return code, the reply bytes and the next state of the MCU.
\<close>

type_synonym 'm transport = "'m \<Rightarrow> u8 list \<Rightarrow> (c_int \<times> u8 list) \<times> 'm"

text \<open>
  Modelled from the spec: \<^verbatim>\<open>iei_wt61p803_puzzle_write_command\<close> is defined in the parent
  MFD driver, which is not among the sources. The spec gives it as
  \<^verbatim>\<open>send_command(bytes, len) \<rightarrow> (response_bytes, response_len) or error\<close>: the reply
  bytes are copied to the front of the caller's buffer and their number is returned as the
  reply size, next to the return code.
\<close>

definition iei_wt61p803_puzzle_write_command ::
  "'m transport \<Rightarrow> u8 list \<Rightarrow> 'm iei_wt61p803_puzzle_hwmon \<Rightarrow> c_int \<times> nat \<times> 'm iei_wt61p803_puzzle_hwmon" where
  "iei_wt61p803_puzzle_write_command bus cmd s =
     (case bus (mcu s) cmd of
        ((ret, reply), m') \<Rightarrow>
          (ret, length reply,
           s\<lparr>mcu := m',
             response_buffer := reply @ drop (length reply) (response_buffer s),
             history := history s @ [Write_Command cmd]\<rparr>))"

subsection \<open>Unit conversion\<close>

text \<open>
  \<^verbatim>\<open>#define raw_temp_to_milidegree_celsius(x) (((x) - 0x80) * 1000)\<close> and
  \<^verbatim>\<open>#define raw_fan_val_to_rpm(x, y) ((((x) << 8 | (y)) / 2) * 60)\<close>, on bytes promoted
  to \<^verbatim>\<open>int\<close>.
\<close>

definition raw_temp_to_milidegree_celsius :: "u8 \<Rightarrow> c_int" where
  "raw_temp_to_milidegree_celsius x = (ucast x - 0x80) * 1000"

definition raw_fan_val_to_rpm :: "u8 \<Rightarrow> u8 \<Rightarrow> c_int" where
  "raw_fan_val_to_rpm x y = c_int_div (push_bit 8 (ucast x) OR ucast y) 2 * 60"

subsection \<open>The four exchanges\<close>

text \<open>
  The temperature read indexes the response buffer with the channel. An index outside
  the buffer has no defined behaviour in C: the function then yields \<open>Inl\<close> with the state
  reached so far, and \<open>Inr\<close> with return code, stored value and state otherwise.
\<close>

definition iei_wt61p803_puzzle_read_temp_sensor ::
  "puzzle_header \<Rightarrow> 'm transport \<Rightarrow> 'm iei_wt61p803_puzzle_hwmon \<Rightarrow> c_int \<Rightarrow>
   'm iei_wt61p803_puzzle_hwmon + (c_int \<times> c_long option \<times> 'm iei_wt61p803_puzzle_hwmon)" where
  "iei_wt61p803_puzzle_read_temp_sensor K bus mcu_hwmon channel =
     (let temp_sensor_ntc_cmd =
            [IEI_WT61P803_PUZZLE_CMD_HEADER_START K,
             IEI_WT61P803_PUZZLE_CMD_TEMP K,
             IEI_WT61P803_PUZZLE_CMD_TEMP_ALL K,
             0];
          s1 = mutex_lock mcu_hwmon;
          (ret, reply_size, s2) = iei_wt61p803_puzzle_write_command bus temp_sensor_ntc_cmd s1
      in if ret \<noteq> 0 then Inr (ret, None, mutex_unlock s2)
         else if reply_size \<noteq> 7 then Inr (- EIO, None, mutex_unlock s2)
         else
           let (tag, s3) = resp_buf s2 3
           in if tag \<noteq> 0x32 then Inr (- EIO, None, mutex_unlock s3)
              else
                let i = 4 + sint channel
                in if 0 \<le> i \<and> i < int (length (response_buffer s3))
                   then
                     let (raw, s4) = resp_buf s3 (nat i)
                     in Inr (0, Some (scast (raw_temp_to_milidegree_celsius raw)), mutex_unlock s4)
                   else Inl s3)"

definition iei_wt61p803_puzzle_read_fan_speed ::
  "puzzle_header \<Rightarrow> 'm transport \<Rightarrow> 'm iei_wt61p803_puzzle_hwmon \<Rightarrow> c_int \<Rightarrow>
   c_int \<times> c_long option \<times> 'm iei_wt61p803_puzzle_hwmon" where
  "iei_wt61p803_puzzle_read_fan_speed K bus mcu_hwmon channel =
     (let fan_speed_cmd =
            [IEI_WT61P803_PUZZLE_CMD_HEADER_START K,
             IEI_WT61P803_PUZZLE_CMD_FAN K,
             IEI_WT61P803_PUZZLE_CMD_FAN_RPM K channel,
             0];
          s1 = mutex_lock mcu_hwmon;
          (ret, reply_size, s2) = iei_wt61p803_puzzle_write_command bus fan_speed_cmd s1
      in if ret \<noteq> 0 then (ret, None, mutex_unlock s2)
         else if reply_size \<noteq> 7 then (- EIO, None, mutex_unlock s2)
         else
           let (hi, s3) = resp_buf s2 3;
               (lo, s4) = resp_buf s3 4
           in (0, Some (scast (raw_fan_val_to_rpm hi lo)), mutex_unlock s4))"

definition iei_wt61p803_puzzle_write_pwm_channel ::
  "puzzle_header \<Rightarrow> 'm transport \<Rightarrow> 'm iei_wt61p803_puzzle_hwmon \<Rightarrow> c_int \<Rightarrow> c_long \<Rightarrow>
   c_int \<times> 'm iei_wt61p803_puzzle_hwmon" where
  "iei_wt61p803_puzzle_write_pwm_channel K bus mcu_hwmon channel pwm_set_val =
     (let pwm_set_cmd =
            [IEI_WT61P803_PUZZLE_CMD_HEADER_START K,
             IEI_WT61P803_PUZZLE_CMD_FAN K,
             IEI_WT61P803_PUZZLE_CMD_FAN_PWM_WRITE K,
             IEI_WT61P803_PUZZLE_CMD_FAN_PWM K channel,
             ucast pwm_set_val,
             0];
          s1 = mutex_lock mcu_hwmon;
          (ret, reply_size, s2) = iei_wt61p803_puzzle_write_command bus pwm_set_cmd s1
      in if ret \<noteq> 0 then (ret, mutex_unlock s2)
         else if reply_size \<noteq> 3 then (- EIO, mutex_unlock s2)
         else
           let (b0, s3) = resp_buf s2 0
           in if b0 \<noteq> IEI_WT61P803_PUZZLE_CMD_HEADER_START K then (- EIO, mutex_unlock s3)
              else
                let (b1, s4) = resp_buf s3 1
                in if b1 \<noteq> IEI_WT61P803_PUZZLE_CMD_RESPONSE_OK K then (- EIO, mutex_unlock s4)
                   else
                     let (b2, s5) = resp_buf s4 2
                     in if b2 \<noteq> IEI_WT61P803_PUZZLE_CHECKSUM_RESPONSE_OK K
                        then (- EIO, mutex_unlock s5)
                        else (ret, mutex_unlock s5))"

definition iei_wt61p803_puzzle_read_pwm_channel ::
  "puzzle_header \<Rightarrow> 'm transport \<Rightarrow> 'm iei_wt61p803_puzzle_hwmon \<Rightarrow> c_int \<Rightarrow>
   c_int \<times> c_long option \<times> 'm iei_wt61p803_puzzle_hwmon" where
  "iei_wt61p803_puzzle_read_pwm_channel K bus mcu_hwmon channel =
     (let pwm_get_cmd =
            [IEI_WT61P803_PUZZLE_CMD_HEADER_START K,
             IEI_WT61P803_PUZZLE_CMD_FAN K,
             IEI_WT61P803_PUZZLE_CMD_FAN_PWM_READ K,
             IEI_WT61P803_PUZZLE_CMD_FAN_PWM K channel,
             0];
          (ret, reply_size, s1) = iei_wt61p803_puzzle_write_command bus pwm_get_cmd mcu_hwmon
      in if ret \<noteq> 0 then (ret, None, s1)
         else if reply_size \<noteq> 5 then (- EIO, None, s1)
         else
           let (tag, s2) = resp_buf s1 2
           in if tag \<noteq> IEI_WT61P803_PUZZLE_CMD_FAN_PWM_READ K then (- EIO, None, s2)
              else
                let (duty, s3) = resp_buf s2 3
                in (0, Some (ucast duty), s3))"

subsection \<open>The hwmon callbacks\<close>

definition iei_wt61p803_puzzle_read ::
  "puzzle_header \<Rightarrow> 'm transport \<Rightarrow> 'm iei_wt61p803_puzzle_hwmon \<Rightarrow> hwmon_sensor_types \<Rightarrow> u32 \<Rightarrow> c_int \<Rightarrow>
   'm iei_wt61p803_puzzle_hwmon + (c_int \<times> c_long option \<times> 'm iei_wt61p803_puzzle_hwmon)" where
  "iei_wt61p803_puzzle_read K bus mcu_hwmon type attr channel =
     (case type of
        hwmon_pwm \<Rightarrow> Inr (iei_wt61p803_puzzle_read_pwm_channel K bus mcu_hwmon channel)
      | hwmon_fan \<Rightarrow> Inr (iei_wt61p803_puzzle_read_fan_speed K bus mcu_hwmon channel)
      | hwmon_temp \<Rightarrow> iei_wt61p803_puzzle_read_temp_sensor K bus mcu_hwmon channel
      | _ \<Rightarrow> Inr (- EINVAL, None, mcu_hwmon))"

definition iei_wt61p803_puzzle_write ::
  "puzzle_header \<Rightarrow> 'm transport \<Rightarrow> 'm iei_wt61p803_puzzle_hwmon \<Rightarrow> hwmon_sensor_types \<Rightarrow> u32 \<Rightarrow> c_int \<Rightarrow> c_long \<Rightarrow>
   c_int \<times> 'm iei_wt61p803_puzzle_hwmon" where
  "iei_wt61p803_puzzle_write K bus mcu_hwmon type attr channel val =
     iei_wt61p803_puzzle_write_pwm_channel K bus mcu_hwmon channel val"

text \<open>
  \<^verbatim>\<open>thermal_cooling_dev_present[channel]\<close> is read for kind pwm only; a channel outside
  the array has no defined behaviour, which is \<open>None\<close> here.
\<close>

definition iei_wt61p803_puzzle_is_visible ::
  "hwmon_header \<Rightarrow> 'm iei_wt61p803_puzzle_hwmon \<Rightarrow> hwmon_sensor_types \<Rightarrow> u32 \<Rightarrow> c_int \<Rightarrow> umode_t option" where
  "iei_wt61p803_puzzle_is_visible H mcu_hwmon type attr channel =
     (case type of
        hwmon_pwm \<Rightarrow>
          if 0 \<le> sint channel \<and> sint channel < int (length (thermal_cooling_dev_present mcu_hwmon))
          then
            if thermal_cooling_dev_present mcu_hwmon ! nat (sint channel) then Some mode_0444
            else if attr = hwmon_pwm_input H then Some mode_0644
            else Some 0
          else None
      | hwmon_fan \<Rightarrow> if attr = hwmon_fan_input H then Some mode_0444 else Some 0
      | hwmon_temp \<Rightarrow> if attr = hwmon_temp_input H then Some mode_0444 else Some 0
      | _ \<Rightarrow> Some 0)"




subsection \<open>The cooling-device callbacks\<close>

definition iei_wt61p803_puzzle_get_max_state ::
  "iei_wt61p803_puzzle_thermal_cooling_device \<Rightarrow> c_int \<times> c_ulong option" where
  "iei_wt61p803_puzzle_get_max_state cdev = (0, Some (scast IEI_WT61P803_PUZZLE_HWMON_MAX_PWM_VAL))"

text \<open>
  The local \<^verbatim>\<open>value\<close> of \<^verbatim>\<open>iei_wt61p803_puzzle_get_cur_state\<close> holds what the PWM
  read stored; it is copied to \<^verbatim>\<open>*state\<close> only when the read returned 0.
\<close>

definition iei_wt61p803_puzzle_get_cur_state ::
  "puzzle_header \<Rightarrow> 'm transport \<Rightarrow> 'm iei_wt61p803_puzzle_hwmon \<Rightarrow> iei_wt61p803_puzzle_thermal_cooling_device \<Rightarrow>
   c_int \<times> c_ulong option \<times> 'm iei_wt61p803_puzzle_hwmon" where
  "iei_wt61p803_puzzle_get_cur_state K bus mcu_hwmon cdev =
     (let (ret, value, s') = iei_wt61p803_puzzle_read_pwm_channel K bus mcu_hwmon (pwm_channel cdev)
      in if ret \<noteq> 0 then (ret, None, s') else (0, value, s'))"

definition iei_wt61p803_puzzle_set_cur_state ::
  "puzzle_header \<Rightarrow> 'm transport \<Rightarrow> 'm iei_wt61p803_puzzle_hwmon \<Rightarrow> iei_wt61p803_puzzle_thermal_cooling_device \<Rightarrow>
   c_ulong \<Rightarrow> c_int \<times> 'm iei_wt61p803_puzzle_hwmon" where
  "iei_wt61p803_puzzle_set_cur_state K bus mcu_hwmon cdev state =
     iei_wt61p803_puzzle_write_pwm_channel K bus mcu_hwmon (pwm_channel cdev) state"

subsection \<open>Observing a run\<close>

text \<open>The commands handed to the bus transport, in order.\<close>

fun requests :: "event list \<Rightarrow> u8 list list" where
  "requests [] = []"
| "requests (Write_Command cmd # es) = cmd # requests es"
| "requests (e # es) = requests es"

text \<open>
  The locking rule of the structure's comment \<^verbatim>\<open>/* mutex to protect response_buffer array */\<close>:
  the bus transport fills the response buffer, and a byte of it is read, only while the
  mutex is held. The first argument tells whether the mutex is held before the events.
\<close>

fun lock_discipline :: "bool \<Rightarrow> event list \<Rightarrow> bool" where
  "lock_discipline held [] = True"
| "lock_discipline held (Mutex_Lock # es) = lock_discipline True es"
| "lock_discipline held (Mutex_Unlock # es) = lock_discipline False es"
| "lock_discipline held (Write_Command cmd # es) = (held \<and> lock_discipline held es)"
| "lock_discipline held (Response_Read i # es) = (held \<and> lock_discipline held es)"

text \<open>The state a read ends in, whether its behaviour was defined or not.\<close>

definition reached ::
  "'m iei_wt61p803_puzzle_hwmon + (c_int \<times> c_long option \<times> 'm iei_wt61p803_puzzle_hwmon) \<Rightarrow>
   'm iei_wt61p803_puzzle_hwmon" where
  "reached r = (case r of Inl s \<Rightarrow> s | Inr (ret, value, s) \<Rightarrow> s)"

subsection \<open>Instances for the examples\<close>

text \<open>
  Byte values for the header's constants, used where an example needs concrete bytes:
  the ASCII letters of the MCU's command set, channels counted from \<^verbatim>\<open>'0'\<close> for PWM
  and from \<^verbatim>\<open>'A'\<close> for fan speed.
\<close>

definition example_header :: puzzle_header where
  "example_header =
     \<lparr>IEI_WT61P803_PUZZLE_BUF_SIZE = 512,
      IEI_WT61P803_PUZZLE_CMD_HEADER_START = 0x40,
      IEI_WT61P803_PUZZLE_CMD_RESPONSE_OK = 0x30,
      IEI_WT61P803_PUZZLE_CHECKSUM_RESPONSE_OK = 0x70,
      IEI_WT61P803_PUZZLE_CMD_TEMP = 0x54,
      IEI_WT61P803_PUZZLE_CMD_TEMP_ALL = 0x41,
      IEI_WT61P803_PUZZLE_CMD_FAN = 0x46,
      IEI_WT61P803_PUZZLE_CMD_FAN_PWM_READ = 0x5A,
      IEI_WT61P803_PUZZLE_CMD_FAN_PWM_WRITE = 0x57,
      IEI_WT61P803_PUZZLE_CMD_FAN_PWM = (\<lambda>x. ucast (0x30 + x)),
      IEI_WT61P803_PUZZLE_CMD_FAN_RPM = (\<lambda>x. ucast (0x41 + x))\<rparr>"


text \<open>A transport that answers every command with the same return code and reply.\<close>

definition canned :: "c_int \<Rightarrow> u8 list \<Rightarrow> unit transport" where
  "canned ret reply = (\<lambda>m cmd. ((ret, reply), m))"

text \<open>
  Modelled from the spec: the MCU is not among the sources; the spec's round-trip property
  assumes one that echoes the written duty. This one keeps the duty of each PWM channel
  byte, acknowledges a PWM write and answers a PWM read with the duty it keeps.
\<close>

definition echo_mcu :: "puzzle_header \<Rightarrow> (u8 \<Rightarrow> u8) transport" where
  "echo_mcu K duty cmd =
     (if length cmd = 6 \<and> cmd ! 2 = IEI_WT61P803_PUZZLE_CMD_FAN_PWM_WRITE K
      then ((0, [IEI_WT61P803_PUZZLE_CMD_HEADER_START K,
                 IEI_WT61P803_PUZZLE_CMD_RESPONSE_OK K,
                 IEI_WT61P803_PUZZLE_CHECKSUM_RESPONSE_OK K]),
            duty(cmd ! 3 := cmd ! 4))
      else if length cmd = 5 \<and> cmd ! 2 = IEI_WT61P803_PUZZLE_CMD_FAN_PWM_READ K
      then ((0, [IEI_WT61P803_PUZZLE_CMD_HEADER_START K,
                 IEI_WT61P803_PUZZLE_CMD_FAN K,
                 IEI_WT61P803_PUZZLE_CMD_FAN_PWM_READ K,
                 duty (cmd ! 3),
                 0]),
            duty)
      else ((- EIO, []), duty))"

section \<open>Properties\<close>

subsection \<open>Arithmetic of the conversions\<close>

lemma sint_raw_temp: "sint (raw_temp_to_milidegree_celsius x) = (uint x - 128) * 1000"
proof -
  have b: "0 \<le> uint x" "uint x < 256" using uint_bounded [of x] by simp_all
  have "raw_temp_to_milidegree_celsius x = word_of_int ((uint x - 128) * 1000)"
    by (simp add: raw_temp_to_milidegree_celsius_def)
  moreover have "sint (word_of_int ((uint x - 128) * 1000) :: c_int) = (uint x - 128) * 1000"
    unfolding sint_sbintrunc' using b by (intro signed_take_bit_int_eq_self) simp_all
  ultimately show ?thesis by simp
qed

lemma sint_long_of_int: "sint (scast (w :: c_int) :: c_long) = sint w"
  by (simp add: sint_up_scast is_up)

lemma fan_raw_bound: "0 \<le> push_bit 8 (uint (x::u8)) OR uint (y::u8)" "push_bit 8 (uint (x::u8)) OR uint (y::u8) < 65536"
proof -
  have x: "0 \<le> uint x" "uint x < 256" using uint_bounded [of x] by simp_all
  have y: "0 \<le> uint y" "uint y < 256" using uint_bounded [of y] by simp_all
  show "0 \<le> push_bit 8 (uint x) OR uint y" by simp
  have "push_bit 8 (uint x) < 2 ^ 16" using x by (simp add: push_bit_eq_mult)
  moreover have "uint y < 2 ^ 16" using y by simp
  ultimately have "push_bit 8 (uint x) OR uint y < 2 ^ 16"
    by (intro OR_upper) simp_all
  then show "push_bit 8 (uint x) OR uint y < 65536" by simp
qed

lemma uint_fan_raw: "uint (push_bit 8 (ucast (x::u8)) OR ucast (y::u8) :: c_int) = push_bit 8 (uint x) OR uint y"
proof -
  have x: "0 \<le> uint x" "uint x < 256" using uint_bounded [of x] by simp_all
  have y: "0 \<le> uint y" "uint y < 256" using uint_bounded [of y] by simp_all
  have 1: "take_bit 32 (uint x) = uint x" using x by (simp add: take_bit_int_eq_self)
  have 2: "take_bit 32 (uint y) = uint y" using y by (simp add: take_bit_int_eq_self)
  have 3: "take_bit 32 (push_bit 8 (uint x)) = push_bit 8 (uint x)"
    using x by (intro take_bit_int_eq_self) (simp_all add: push_bit_eq_mult)
  show ?thesis
    by (simp add: unsigned_or_eq unsigned_push_bit_eq unsigned_ucast_eq 1 2 3)
qed

lemma sint_raw_fan: "sint (raw_fan_val_to_rpm x y) = (push_bit 8 (uint x) OR uint y) div 2 * 60"
proof -
  define r where "r = push_bit 8 (uint x) OR uint y"
  have b: "0 \<le> r" "r < 65536"
    using fan_raw_bound [of x y] by (simp_all add: r_def)
  have w: "(push_bit 8 (ucast x) OR ucast y :: c_int) = word_of_int r"
    using uint_fan_raw [of x y] unfolding r_def by (metis word_of_int_uint)
  have s: "sint (word_of_int r :: c_int) = r"
    unfolding sint_sbintrunc' using b by (intro signed_take_bit_int_eq_self) simp_all
  have d: "r sdiv 2 = r div 2"
    using b by (simp add: signed_divide_int_def sgn_if)
  have q: "- (2 ^ 31) \<le> r div 2 * 60" "r div 2 * 60 < 2 ^ 31" using b by simp_all
  have "raw_fan_val_to_rpm x y = word_of_int (r div 2 * 60)"
    by (simp add: raw_fan_val_to_rpm_def c_int_div_def w s d)
  moreover have "sint (word_of_int (r div 2 * 60) :: c_int) = r div 2 * 60"
    unfolding sint_sbintrunc' using q by (intro signed_take_bit_int_eq_self) simp_all
  ultimately show ?thesis by (simp add: r_def)
qed

lemma uint_duty: "uint (ucast (v::c_long) :: u8) = uint v mod 256"
  by (simp add: unsigned_ucast_eq take_bit_eq_mod)

lemma ucast_duty_roundtrip: "v \<le> 255 \<Longrightarrow> (ucast (ucast (v::c_long) :: u8) :: c_long) = v"
proof -
  assume "v \<le> 255"
  then have "uint v \<le> 255" by (simp add: word_le_def)
  then have "uint v mod 256 = uint v" by simp
  then have "uint (ucast (ucast v :: u8) :: c_long) = uint v"
    by (simp add: unsigned_ucast_eq take_bit_eq_mod uint_mod)
  then show ?thesis by (rule word_uint_eqI)
qed

subsection \<open>Unfolding an exchange\<close>

lemmas exchange_defs =
  iei_wt61p803_puzzle_write_command_def mutex_lock_def mutex_unlock_def resp_buf_def Let_def

text \<open>The bytes of a reply lie inside the response buffer.\<close>

lemma write_command_reply_in_buffer:
  "iei_wt61p803_puzzle_write_command bus cmd s = (ret, reply_size, s') \<Longrightarrow>
   reply_size \<le> length (response_buffer s')"
  by (auto simp add: iei_wt61p803_puzzle_write_command_def split: prod.splits)

lemma EIO_nonzero: "- EIO \<noteq> 0"
  by (simp add: EIO_def)

lemma requests_append: "requests (xs @ ys) = requests xs @ requests ys"
  by (induction xs rule: requests.induct) simp_all

lemma list3: "length xs = 3 \<Longrightarrow> \<exists>a b c. xs = [a, b, c]"
  by (cases xs; simp; cases "tl xs"; simp; cases "tl (tl xs)"; simp)

lemma uint_of_small_long: "0 \<le> sint (v::c_long) \<Longrightarrow> sint v \<le> 255 \<Longrightarrow> uint v = sint v"
proof -
  assume "0 \<le> sint v" "sint v \<le> 255"
  then have "take_bit 64 (sint v) = sint v"
    by (intro take_bit_int_eq_self) simp_all
  then show ?thesis by (simp add: uint_sint)
qed

lemma duty_byte_signed: "uint (ucast (v::c_long) :: u8) = sint v mod 256"
proof -
  have "uint v mod 256 = take_bit 8 (take_bit 64 (sint v))"
    by (simp add: uint_sint take_bit_eq_mod)
  also have "\<dots> = sint v mod 256"
    by (simp add: take_bit_eq_mod mod_mod_cancel)
  finally show ?thesis by (simp add: uint_duty)
qed

lemma write_pwm_channel_requests:
  "requests (history (snd (iei_wt61p803_puzzle_write_pwm_channel K bus s channel v))) =
     requests (history s) @
       [[IEI_WT61P803_PUZZLE_CMD_HEADER_START K, IEI_WT61P803_PUZZLE_CMD_FAN K,
         IEI_WT61P803_PUZZLE_CMD_FAN_PWM_WRITE K, IEI_WT61P803_PUZZLE_CMD_FAN_PWM K channel,
         ucast v, 0]]"
  by (cases "bus (mcu s)
        [IEI_WT61P803_PUZZLE_CMD_HEADER_START K, IEI_WT61P803_PUZZLE_CMD_FAN K,
         IEI_WT61P803_PUZZLE_CMD_FAN_PWM_WRITE K, IEI_WT61P803_PUZZLE_CMD_FAN_PWM K channel,
         ucast v, 0]")
    (auto simp add: iei_wt61p803_puzzle_write_pwm_channel_def exchange_defs requests_append)

lemma read_pwm_channel_requests:
  "requests (history (snd (snd (iei_wt61p803_puzzle_read_pwm_channel K bus s channel)))) =
     requests (history s) @
       [[IEI_WT61P803_PUZZLE_CMD_HEADER_START K, IEI_WT61P803_PUZZLE_CMD_FAN K,
         IEI_WT61P803_PUZZLE_CMD_FAN_PWM_READ K, IEI_WT61P803_PUZZLE_CMD_FAN_PWM K channel, 0]]"
  by (cases "bus (mcu s)
        [IEI_WT61P803_PUZZLE_CMD_HEADER_START K, IEI_WT61P803_PUZZLE_CMD_FAN K,
         IEI_WT61P803_PUZZLE_CMD_FAN_PWM_READ K, IEI_WT61P803_PUZZLE_CMD_FAN_PWM K channel, 0]")
    (auto simp add: iei_wt61p803_puzzle_read_pwm_channel_def exchange_defs requests_append)

lemma read_fan_speed_requests:
  "requests (history (snd (snd (iei_wt61p803_puzzle_read_fan_speed K bus s channel)))) =
     requests (history s) @
       [[IEI_WT61P803_PUZZLE_CMD_HEADER_START K, IEI_WT61P803_PUZZLE_CMD_FAN K,
         IEI_WT61P803_PUZZLE_CMD_FAN_RPM K channel, 0]]"
  by (cases "bus (mcu s)
        [IEI_WT61P803_PUZZLE_CMD_HEADER_START K, IEI_WT61P803_PUZZLE_CMD_FAN K,
         IEI_WT61P803_PUZZLE_CMD_FAN_RPM K channel, 0]")
    (auto simp add: iei_wt61p803_puzzle_read_fan_speed_def exchange_defs requests_append)

lemma read_temp_sensor_requests:
  "requests (history (reached (iei_wt61p803_puzzle_read_temp_sensor K bus s channel))) =
     requests (history s) @
       [[IEI_WT61P803_PUZZLE_CMD_HEADER_START K, IEI_WT61P803_PUZZLE_CMD_TEMP K,
         IEI_WT61P803_PUZZLE_CMD_TEMP_ALL K, 0]]"
  by (cases "bus (mcu s)
        [IEI_WT61P803_PUZZLE_CMD_HEADER_START K, IEI_WT61P803_PUZZLE_CMD_TEMP K,
         IEI_WT61P803_PUZZLE_CMD_TEMP_ALL K, 0]")
    (auto simp add: iei_wt61p803_puzzle_read_temp_sensor_def exchange_defs requests_append reached_def)

lemma reached_Inr: "reached (Inr r) = snd (snd r)"
  by (cases r) (simp add: reached_def)

lemma is_visible_fan_temp:
  "iei_wt61p803_puzzle_is_visible H d hwmon_fan attr channel =
     Some (if attr = hwmon_fan_input H then mode_0444 else 0)"
  "iei_wt61p803_puzzle_is_visible H d hwmon_temp attr channel =
     Some (if attr = hwmon_temp_input H then mode_0444 else 0)"
  by (simp_all add: iei_wt61p803_puzzle_is_visible_def)

lemma is_visible_pwm:
  "0 \<le> sint channel \<Longrightarrow> sint channel < int (length (thermal_cooling_dev_present d)) \<Longrightarrow>
   iei_wt61p803_puzzle_is_visible H d hwmon_pwm attr channel =
     Some (if thermal_cooling_dev_present d ! nat (sint channel) then mode_0444
           else if attr = hwmon_pwm_input H then mode_0644 else 0)"
  by (simp add: iei_wt61p803_puzzle_is_visible_def)

lemma is_visible_other:
  "type \<noteq> hwmon_pwm \<Longrightarrow> type \<noteq> hwmon_fan \<Longrightarrow> type \<noteq> hwmon_temp \<Longrightarrow>
   iei_wt61p803_puzzle_is_visible H d type attr channel = Some 0"
  by (cases type) (simp_all add: iei_wt61p803_puzzle_is_visible_def)


lemma read_pwm_channel_error_stores_nothing:
  "fst (iei_wt61p803_puzzle_read_pwm_channel K bus s channel) \<noteq> 0 \<Longrightarrow>
   fst (snd (iei_wt61p803_puzzle_read_pwm_channel K bus s channel)) = None"
proof -
  obtain ret reply m' where
    "bus (mcu s)
       [IEI_WT61P803_PUZZLE_CMD_HEADER_START K, IEI_WT61P803_PUZZLE_CMD_FAN K,
        IEI_WT61P803_PUZZLE_CMD_FAN_PWM_READ K, IEI_WT61P803_PUZZLE_CMD_FAN_PWM K channel, 0]
     = ((ret, reply), m')"
    by (metis prod.exhaust)
  then show "fst (iei_wt61p803_puzzle_read_pwm_channel K bus s channel) \<noteq> 0 \<Longrightarrow>
    fst (snd (iei_wt61p803_puzzle_read_pwm_channel K bus s channel)) = None"
    by (simp add: iei_wt61p803_puzzle_read_pwm_channel_def exchange_defs split: if_splits)
qed

lemma get_cur_state_is_read_pwm:
  "iei_wt61p803_puzzle_get_cur_state K bus s cdev =
     iei_wt61p803_puzzle_read_pwm_channel K bus s (pwm_channel cdev)"
proof (cases "iei_wt61p803_puzzle_read_pwm_channel K bus s (pwm_channel cdev)")
  case (fields ret "value" s')
  show ?thesis
  proof (cases "ret = 0")
    case True
    with fields show ?thesis by (simp add: iei_wt61p803_puzzle_get_cur_state_def)
  next
    case False
    with fields read_pwm_channel_error_stores_nothing [of K bus s "pwm_channel cdev"]
    show ?thesis by (simp add: iei_wt61p803_puzzle_get_cur_state_def)
  qed
qed

subsection \<open>Temperature\<close>

text \<open>
  C2. For a channel \<open>c\<close> in \<open>{0, 1}\<close>: when the transport succeeds with a reply of 7 bytes
  whose byte 3 is ASCII \<^verbatim>\<open>'2'\<close>, the temperature read returns 0 and stores
  \<open>(reply[4 + c] - 128) * 1000\<close>. The conversion is defined for every raw byte, with a
  result between \<open>-128000\<close> and \<open>127000\<close>.
\<close>

theorem read_temp_sensor_value:
  assumes c: "channel = 0 \<or> channel = 1"
    and bus: "bus (mcu s)
               [IEI_WT61P803_PUZZLE_CMD_HEADER_START K, IEI_WT61P803_PUZZLE_CMD_TEMP K,
                IEI_WT61P803_PUZZLE_CMD_TEMP_ALL K, 0] = ((0, reply), m')"
    and len: "length reply = 7"
    and tag: "reply ! 3 = 0x32"
  shows "(\<exists>value s'. iei_wt61p803_puzzle_read_temp_sensor K bus s channel = Inr (0, Some value, s')
            \<and> sint value = (uint (reply ! (4 + unat channel)) - 128) * 1000)
         \<and> (\<forall>raw. sint (scast (raw_temp_to_milidegree_celsius raw) :: c_long) = (uint raw - 128) * 1000
               \<and> - 128000 \<le> sint (scast (raw_temp_to_milidegree_celsius raw) :: c_long)
               \<and> sint (scast (raw_temp_to_milidegree_celsius raw) :: c_long) \<le> 127000)"
proof
  have n: "(reply @ drop 7 (response_buffer s)) ! 3 = reply ! 3"
          "(reply @ drop 7 (response_buffer s)) ! 4 = reply ! 4"
          "(reply @ drop 7 (response_buffer s)) ! 5 = reply ! 5"
    using len by (simp_all add: nth_append)
  show "\<exists>value s'. iei_wt61p803_puzzle_read_temp_sensor K bus s channel = Inr (0, Some value, s')
            \<and> sint value = (uint (reply ! (4 + unat channel)) - 128) * 1000"
    using c
  proof
    assume "channel = 0"
    then show ?thesis
      by (simp add: iei_wt61p803_puzzle_read_temp_sensor_def exchange_defs bus len tag n
          sint_long_of_int sint_raw_temp)
  next
    assume "channel = 1"
    then show ?thesis
      by (simp add: iei_wt61p803_puzzle_read_temp_sensor_def exchange_defs bus len tag n
          sint_long_of_int sint_raw_temp)
  qed
next
  show "\<forall>raw. sint (scast (raw_temp_to_milidegree_celsius raw) :: c_long) = (uint raw - 128) * 1000
               \<and> - 128000 \<le> sint (scast (raw_temp_to_milidegree_celsius raw) :: c_long)
               \<and> sint (scast (raw_temp_to_milidegree_celsius raw) :: c_long) \<le> 127000"
  proof
    fix raw :: u8
    have "0 \<le> uint raw" "uint raw < 256" using uint_bounded [of raw] by simp_all
    then show "sint (scast (raw_temp_to_milidegree_celsius raw) :: c_long) = (uint raw - 128) * 1000
               \<and> - 128000 \<le> sint (scast (raw_temp_to_milidegree_celsius raw) :: c_long)
               \<and> sint (scast (raw_temp_to_milidegree_celsius raw) :: c_long) \<le> 127000"
      by (simp add: sint_long_of_int sint_raw_temp)
  qed
qed

text \<open>
  The reply \<^verbatim>\<open>[H, TEMP, '@', '2', 0xA0, 0x70, C]\<close>: 32000 on channel 0, -16000 on
  channel 1.
\<close>

theorem read_temp_sensor_value_witness:
  "(\<exists>value s'. iei_wt61p803_puzzle_read_temp_sensor example_header
        (canned 0 [0x40, 0x54, 0x40, 0x32, 0xA0, 0x70, 0x11])
        (iei_wt61p803_puzzle_hwmon_alloc example_header ()) 0 = Inr (0, Some value, s')
      \<and> sint value = 32000)
   \<and> (\<exists>value s'. iei_wt61p803_puzzle_read_temp_sensor example_header
        (canned 0 [0x40, 0x54, 0x40, 0x32, 0xA0, 0x70, 0x11])
        (iei_wt61p803_puzzle_hwmon_alloc example_header ()) 1 = Inr (0, Some value, s')
      \<and> sint value = - 16000)"
  using read_temp_sensor_value [of 0 "canned 0 [0x40, 0x54, 0x40, 0x32, 0xA0, 0x70, 0x11]"
      "iei_wt61p803_puzzle_hwmon_alloc example_header ()" example_header
      "[0x40, 0x54, 0x40, 0x32, 0xA0, 0x70, 0x11]" "()"]
    read_temp_sensor_value [of 1 "canned 0 [0x40, 0x54, 0x40, 0x32, 0xA0, 0x70, 0x11]"
      "iei_wt61p803_puzzle_hwmon_alloc example_header ()" example_header
      "[0x40, 0x54, 0x40, 0x32, 0xA0, 0x70, 0x11]" "()"]
  by (simp add: canned_def)

subsection \<open>Fan speed\<close>

text \<open>
  C3. For every fan channel: when the transport succeeds with a reply of 7 bytes, the
  fan-speed read returns 0 and stores \<open>((hi << 8) | lo) / 2 * 60\<close>, where \<open>hi\<close> and \<open>lo\<close> are
  bytes 3 and 4 of the reply. The result is not negative, whatever the two bytes.
\<close>

theorem read_fan_speed_value:
  assumes bus: "bus (mcu s)
               [IEI_WT61P803_PUZZLE_CMD_HEADER_START K, IEI_WT61P803_PUZZLE_CMD_FAN K,
                IEI_WT61P803_PUZZLE_CMD_FAN_RPM K channel, 0] = ((0, reply), m')"
    and len: "length reply = 7"
  shows "(\<exists>value s'. iei_wt61p803_puzzle_read_fan_speed K bus s channel = (0, Some value, s')
            \<and> sint value = (push_bit 8 (uint (reply ! 3)) OR uint (reply ! 4)) div 2 * 60)
         \<and> (\<forall>hi lo. 0 \<le> sint (scast (raw_fan_val_to_rpm hi lo) :: c_long))"
proof
  have n: "(reply @ drop 7 (response_buffer s)) ! 3 = reply ! 3"
          "(reply @ drop 7 (response_buffer s)) ! 4 = reply ! 4"
    using len by (simp_all add: nth_append)
  show "\<exists>value s'. iei_wt61p803_puzzle_read_fan_speed K bus s channel = (0, Some value, s')
            \<and> sint value = (push_bit 8 (uint (reply ! 3)) OR uint (reply ! 4)) div 2 * 60"
    by (simp add: iei_wt61p803_puzzle_read_fan_speed_def exchange_defs bus len n
        sint_long_of_int sint_raw_fan)
next
  show "\<forall>hi lo. 0 \<le> sint (scast (raw_fan_val_to_rpm hi lo) :: c_long)"
  proof (intro allI)
    fix hi lo :: u8
    define r where "r = push_bit 8 (uint hi) OR uint lo"
    have "0 \<le> r" using fan_raw_bound [of hi lo] by (simp add: r_def)
    then have "0 \<le> r div 2 * 60" by simp
    then show "0 \<le> sint (scast (raw_fan_val_to_rpm hi lo) :: c_long)"
      by (simp add: sint_long_of_int sint_raw_fan r_def)
  qed
qed

text \<open>Channel 3 with the reply \<^verbatim>\<open>[H, FAN, FAN_RPM(3), 0x01, 0x90, X, Y]\<close>: 12000.\<close>

theorem read_fan_speed_value_witness:
  "\<exists>value s'. iei_wt61p803_puzzle_read_fan_speed example_header
        (canned 0 [0x40, 0x46, 0x44, 0x01, 0x90, 0x00, 0x11])
        (iei_wt61p803_puzzle_hwmon_alloc example_header ()) 3 = (0, Some value, s')
      \<and> sint value = 12000"
  using read_fan_speed_value [of "canned 0 [0x40, 0x46, 0x44, 0x01, 0x90, 0x00, 0x11]"
      "iei_wt61p803_puzzle_hwmon_alloc example_header ()" example_header 3
      "[0x40, 0x46, 0x44, 0x01, 0x90, 0x00, 0x11]" "()"]
  by (simp add: canned_def)

subsection \<open>Framing errors\<close>

text \<open>
  C4. For each of the four verbs: when the transport succeeds but the reply is not what the
  verb expects (7 bytes with byte 3 equal to \<^verbatim>\<open>'2'\<close> for the temperatures, 7 bytes for
  the fan speed, exactly \<^verbatim>\<open>[HEADER_START, RESPONSE_OK, CHECKSUM_RESPONSE_OK]\<close> for the
  PWM write, 5 bytes with byte 2 equal to \<^verbatim>\<open>FAN_PWM_READ\<close> for the PWM read), the
  operation returns \<^verbatim>\<open>-EIO\<close>, which is not 0, and stores nothing in the caller's value.
\<close>

theorem framing_error_is_EIO:
  "(bus (mcu s)
        [IEI_WT61P803_PUZZLE_CMD_HEADER_START K, IEI_WT61P803_PUZZLE_CMD_TEMP K,
         IEI_WT61P803_PUZZLE_CMD_TEMP_ALL K, 0] = ((0, reply), m')
      \<and> (length reply \<noteq> 7 \<or> reply ! 3 \<noteq> 0x32)
    \<longrightarrow> (\<exists>s'. iei_wt61p803_puzzle_read_temp_sensor K bus s channel = Inr (- EIO, None, s')))
   \<and> (bus (mcu s)
        [IEI_WT61P803_PUZZLE_CMD_HEADER_START K, IEI_WT61P803_PUZZLE_CMD_FAN K,
         IEI_WT61P803_PUZZLE_CMD_FAN_RPM K channel, 0] = ((0, reply), m')
      \<and> length reply \<noteq> 7
    \<longrightarrow> (\<exists>s'. iei_wt61p803_puzzle_read_fan_speed K bus s channel = (- EIO, None, s')))
   \<and> (bus (mcu s)
        [IEI_WT61P803_PUZZLE_CMD_HEADER_START K, IEI_WT61P803_PUZZLE_CMD_FAN K,
         IEI_WT61P803_PUZZLE_CMD_FAN_PWM_WRITE K, IEI_WT61P803_PUZZLE_CMD_FAN_PWM K channel,
         ucast v, 0] = ((0, reply), m')
      \<and> reply \<noteq> [IEI_WT61P803_PUZZLE_CMD_HEADER_START K, IEI_WT61P803_PUZZLE_CMD_RESPONSE_OK K,
                   IEI_WT61P803_PUZZLE_CHECKSUM_RESPONSE_OK K]
    \<longrightarrow> (\<exists>s'. iei_wt61p803_puzzle_write_pwm_channel K bus s channel v = (- EIO, s')))
   \<and> (bus (mcu s)
        [IEI_WT61P803_PUZZLE_CMD_HEADER_START K, IEI_WT61P803_PUZZLE_CMD_FAN K,
         IEI_WT61P803_PUZZLE_CMD_FAN_PWM_READ K, IEI_WT61P803_PUZZLE_CMD_FAN_PWM K channel,
         0] = ((0, reply), m')
      \<and> (length reply \<noteq> 5 \<or> reply ! 2 \<noteq> IEI_WT61P803_PUZZLE_CMD_FAN_PWM_READ K)
    \<longrightarrow> (\<exists>s'. iei_wt61p803_puzzle_read_pwm_channel K bus s channel = (- EIO, None, s')))
   \<and> - EIO \<noteq> 0"
proof (intro conjI impI)
  assume a: "bus (mcu s)
        [IEI_WT61P803_PUZZLE_CMD_HEADER_START K, IEI_WT61P803_PUZZLE_CMD_TEMP K,
         IEI_WT61P803_PUZZLE_CMD_TEMP_ALL K, 0] = ((0, reply), m')
      \<and> (length reply \<noteq> 7 \<or> reply ! 3 \<noteq> 0x32)"
  show "\<exists>s'. iei_wt61p803_puzzle_read_temp_sensor K bus s channel = Inr (- EIO, None, s')"
  proof (cases "length reply = 7")
    case True
    then have "(reply @ drop 7 (response_buffer s)) ! 3 = reply ! 3"
      by (simp add: nth_append)
    with a True show ?thesis
      by (simp add: iei_wt61p803_puzzle_read_temp_sensor_def exchange_defs)
  next
    case False
    with a show ?thesis
      by (simp add: iei_wt61p803_puzzle_read_temp_sensor_def exchange_defs)
  qed
next
  assume a: "bus (mcu s)
        [IEI_WT61P803_PUZZLE_CMD_HEADER_START K, IEI_WT61P803_PUZZLE_CMD_FAN K,
         IEI_WT61P803_PUZZLE_CMD_FAN_RPM K channel, 0] = ((0, reply), m')
      \<and> length reply \<noteq> 7"
  then show "\<exists>s'. iei_wt61p803_puzzle_read_fan_speed K bus s channel = (- EIO, None, s')"
    by (simp add: iei_wt61p803_puzzle_read_fan_speed_def exchange_defs)
next
  assume a: "bus (mcu s)
        [IEI_WT61P803_PUZZLE_CMD_HEADER_START K, IEI_WT61P803_PUZZLE_CMD_FAN K,
         IEI_WT61P803_PUZZLE_CMD_FAN_PWM_WRITE K, IEI_WT61P803_PUZZLE_CMD_FAN_PWM K channel,
         ucast v, 0] = ((0, reply), m')
      \<and> reply \<noteq> [IEI_WT61P803_PUZZLE_CMD_HEADER_START K, IEI_WT61P803_PUZZLE_CMD_RESPONSE_OK K,
                   IEI_WT61P803_PUZZLE_CHECKSUM_RESPONSE_OK K]"
  show "\<exists>s'. iei_wt61p803_puzzle_write_pwm_channel K bus s channel v = (- EIO, s')"
  proof (cases "length reply = 3")
    case True
    then obtain a0 a1 a2 where r: "reply = [a0, a1, a2]"
      using list3 by blast
    with a show ?thesis
      by (auto simp add: iei_wt61p803_puzzle_write_pwm_channel_def exchange_defs)
  next
    case False
    with a show ?thesis
      by (simp add: iei_wt61p803_puzzle_write_pwm_channel_def exchange_defs)
  qed
next
  assume a: "bus (mcu s)
        [IEI_WT61P803_PUZZLE_CMD_HEADER_START K, IEI_WT61P803_PUZZLE_CMD_FAN K,
         IEI_WT61P803_PUZZLE_CMD_FAN_PWM_READ K, IEI_WT61P803_PUZZLE_CMD_FAN_PWM K channel,
         0] = ((0, reply), m')
      \<and> (length reply \<noteq> 5 \<or> reply ! 2 \<noteq> IEI_WT61P803_PUZZLE_CMD_FAN_PWM_READ K)"
  show "\<exists>s'. iei_wt61p803_puzzle_read_pwm_channel K bus s channel = (- EIO, None, s')"
  proof (cases "length reply = 5")
    case True
    then have "(reply @ drop 5 (response_buffer s)) ! 2 = reply ! 2"
      by (simp add: nth_append)
    with a True show ?thesis
      by (simp add: iei_wt61p803_puzzle_read_pwm_channel_def exchange_defs)
  next
    case False
    with a show ?thesis
      by (simp add: iei_wt61p803_puzzle_read_pwm_channel_def exchange_defs)
  qed
next
  show "- EIO \<noteq> 0" by (rule EIO_nonzero)
qed

text \<open>A reply of 6 bytes is a framing error for each of the four verbs.\<close>

theorem framing_error_is_EIO_witness:
  "(\<exists>s'. iei_wt61p803_puzzle_read_temp_sensor example_header
            (canned 0 [0x40, 0x54, 0x40, 0x32, 0xA0, 0x70])
            (iei_wt61p803_puzzle_hwmon_alloc example_header ()) 0 = Inr (- EIO, None, s'))
   \<and> (\<exists>s'. iei_wt61p803_puzzle_read_fan_speed example_header
            (canned 0 [0x40, 0x54, 0x40, 0x32, 0xA0, 0x70])
            (iei_wt61p803_puzzle_hwmon_alloc example_header ()) 0 = (- EIO, None, s'))
   \<and> (\<exists>s'. iei_wt61p803_puzzle_write_pwm_channel example_header
            (canned 0 [0x40, 0x54, 0x40, 0x32, 0xA0, 0x70])
            (iei_wt61p803_puzzle_hwmon_alloc example_header ()) 0 128 = (- EIO, s'))
   \<and> (\<exists>s'. iei_wt61p803_puzzle_read_pwm_channel example_header
            (canned 0 [0x40, 0x54, 0x40, 0x32, 0xA0, 0x70])
            (iei_wt61p803_puzzle_hwmon_alloc example_header ()) 0 = (- EIO, None, s'))"
  using framing_error_is_EIO [of "canned 0 [0x40, 0x54, 0x40, 0x32, 0xA0, 0x70]"
      "iei_wt61p803_puzzle_hwmon_alloc example_header ()" example_header
      "[0x40, 0x54, 0x40, 0x32, 0xA0, 0x70]" "()" 0 128]
  by (simp add: canned_def)

subsection \<open>PWM round trip\<close>

text \<open>
  C7. For every value \<open>v\<close> in \<open>[0, 255]\<close> and every PWM channel: when the transport
  acknowledges the write of \<open>v\<close> and then answers the read on the same channel with a
  well-formed reply that carries the written duty, the write returns 0 and the read that
  follows returns 0 and stores \<open>v\<close>.
\<close>

theorem pwm_write_read_roundtrip:
  assumes v: "0 \<le> sint v" "sint v \<le> 255"
    and w: "bus (mcu s)
              [IEI_WT61P803_PUZZLE_CMD_HEADER_START K, IEI_WT61P803_PUZZLE_CMD_FAN K,
               IEI_WT61P803_PUZZLE_CMD_FAN_PWM_WRITE K, IEI_WT61P803_PUZZLE_CMD_FAN_PWM K channel,
               ucast v, 0]
            = ((0, [IEI_WT61P803_PUZZLE_CMD_HEADER_START K, IEI_WT61P803_PUZZLE_CMD_RESPONSE_OK K,
                    IEI_WT61P803_PUZZLE_CHECKSUM_RESPONSE_OK K]), m1)"
    and r: "bus m1
              [IEI_WT61P803_PUZZLE_CMD_HEADER_START K, IEI_WT61P803_PUZZLE_CMD_FAN K,
               IEI_WT61P803_PUZZLE_CMD_FAN_PWM_READ K, IEI_WT61P803_PUZZLE_CMD_FAN_PWM K channel, 0]
            = ((0, reply), m2)"
    and len: "length reply = 5"
    and tag: "reply ! 2 = IEI_WT61P803_PUZZLE_CMD_FAN_PWM_READ K"
    and echo: "reply ! 3 = ucast v"
  shows "\<exists>s1 s2. iei_wt61p803_puzzle_write_pwm_channel K bus s channel v = (0, s1)
           \<and> iei_wt61p803_puzzle_read_pwm_channel K bus s1 channel = (0, Some v, s2)"
proof -
  have "uint v \<le> 255" using v by (simp add: uint_of_small_long)
  then have "v \<le> 255" by (simp add: word_le_def)
  then have rt: "(ucast (ucast v :: u8) :: c_long) = v"
    by (rule ucast_duty_roundtrip)
  obtain s1 where s1: "iei_wt61p803_puzzle_write_pwm_channel K bus s channel v = (0, s1)"
    and m: "mcu s1 = m1"
    by (simp add: iei_wt61p803_puzzle_write_pwm_channel_def exchange_defs w)
  have n: "(reply @ drop 5 (response_buffer s1)) ! 2 = reply ! 2"
          "(reply @ drop 5 (response_buffer s1)) ! 3 = reply ! 3"
    using len by (simp_all add: nth_append)
  have "\<exists>s2. iei_wt61p803_puzzle_read_pwm_channel K bus s1 channel = (0, Some v, s2)"
    by (simp add: iei_wt61p803_puzzle_read_pwm_channel_def exchange_defs m r len tag echo n rt)
  with s1 show ?thesis by blast
qed

text \<open>Writing 128 to channel 0 of the echoing MCU and reading it back.\<close>

theorem pwm_write_read_roundtrip_witness:
  "\<exists>s1 s2. iei_wt61p803_puzzle_write_pwm_channel example_header (echo_mcu example_header)
              (iei_wt61p803_puzzle_hwmon_alloc example_header (\<lambda>c. 0)) 0 128 = (0, s1)
           \<and> iei_wt61p803_puzzle_read_pwm_channel example_header (echo_mcu example_header) s1 0
               = (0, Some 128, s2)"
  using pwm_write_read_roundtrip [of 128 "echo_mcu example_header"
      "iei_wt61p803_puzzle_hwmon_alloc example_header (\<lambda>c. 0)" example_header 0
      "(\<lambda>c. 0)(0x30 := 128)" "[0x40, 0x46, 0x5A, 128, 0]" "(\<lambda>c. 0)(0x30 := 128)"]
  by (simp add: echo_mcu_def example_header_def iei_wt61p803_puzzle_hwmon_alloc_def)

subsection \<open>The transaction lock\<close>

text \<open>
  On a freshly allocated device the temperature read, the fan-speed read and the PWM write
  keep the locking rule, whatever the transport answers.
\<close>

lemma read_temp_sensor_locked:
  "lock_discipline False
     (history (reached (iei_wt61p803_puzzle_read_temp_sensor K bus (iei_wt61p803_puzzle_hwmon_alloc K m) channel)))"
  by (cases "bus m
        [IEI_WT61P803_PUZZLE_CMD_HEADER_START K, IEI_WT61P803_PUZZLE_CMD_TEMP K,
         IEI_WT61P803_PUZZLE_CMD_TEMP_ALL K, 0]")
    (auto simp add: iei_wt61p803_puzzle_read_temp_sensor_def exchange_defs reached_def
      iei_wt61p803_puzzle_hwmon_alloc_def)

lemma read_fan_speed_locked:
  "lock_discipline False
     (history (snd (snd (iei_wt61p803_puzzle_read_fan_speed K bus (iei_wt61p803_puzzle_hwmon_alloc K m) channel))))"
  by (cases "bus m
        [IEI_WT61P803_PUZZLE_CMD_HEADER_START K, IEI_WT61P803_PUZZLE_CMD_FAN K,
         IEI_WT61P803_PUZZLE_CMD_FAN_RPM K channel, 0]")
    (auto simp add: iei_wt61p803_puzzle_read_fan_speed_def exchange_defs
      iei_wt61p803_puzzle_hwmon_alloc_def)

lemma write_pwm_channel_locked:
  "lock_discipline False
     (history (snd (iei_wt61p803_puzzle_write_pwm_channel K bus (iei_wt61p803_puzzle_hwmon_alloc K m) channel v)))"
  by (cases "bus m
        [IEI_WT61P803_PUZZLE_CMD_HEADER_START K, IEI_WT61P803_PUZZLE_CMD_FAN K,
         IEI_WT61P803_PUZZLE_CMD_FAN_PWM_WRITE K, IEI_WT61P803_PUZZLE_CMD_FAN_PWM K channel,
         ucast v, 0]")
    (auto simp add: iei_wt61p803_puzzle_write_pwm_channel_def exchange_defs
      iei_wt61p803_puzzle_hwmon_alloc_def)

text \<open>
  C1. Every exchange is to touch the response buffer only with the mutex held, the PWM read
  included. The PWM read does not: it never takes the mutex, so on a freshly allocated
  device its exchange breaks the locking rule, whatever the transport answers.
\<close>

theorem read_pwm_channel_not_locked:
  "\<not> lock_discipline False
       (history (snd (snd (iei_wt61p803_puzzle_read_pwm_channel K bus (iei_wt61p803_puzzle_hwmon_alloc K m) channel))))"
proof -
  obtain ret reply m' where
    "bus m
       [IEI_WT61P803_PUZZLE_CMD_HEADER_START K, IEI_WT61P803_PUZZLE_CMD_FAN K,
        IEI_WT61P803_PUZZLE_CMD_FAN_PWM_READ K, IEI_WT61P803_PUZZLE_CMD_FAN_PWM K channel, 0]
     = ((ret, reply), m')"
    by (metis prod.exhaust)
  then show ?thesis
    by (simp add: iei_wt61p803_puzzle_read_pwm_channel_def exchange_defs
        iei_wt61p803_puzzle_hwmon_alloc_def)
qed

subsection \<open>Visibility\<close>




subsection \<open>Channel indices\<close>

text \<open>
  C6, as stated, fails: setting state 128 on a cooling record whose channel is 7, outside
  the two PWM channels, is not rejected. The PWM-write request with \<^verbatim>\<open>FAN_PWM(7)\<close> goes to
  the transport, and with the transport's acknowledgement the call returns 0.
\<close>

theorem set_cur_state_out_of_range_channel_counterexample:
  "requests (history (snd (iei_wt61p803_puzzle_set_cur_state example_header (canned 0 [0x40, 0x30, 0x70])
      (iei_wt61p803_puzzle_hwmon_alloc example_header ())
      \<lparr>name = ''wt61p803_puzzle_7'', pwm_channel = 7, cooling_levels = [0, 64, 128, 255]\<rparr> 128)))
   = [[0x40, 0x46, 0x57, 0x37, 128, 0]]
   \<and> fst (iei_wt61p803_puzzle_set_cur_state example_header (canned 0 [0x40, 0x30, 0x70])
      (iei_wt61p803_puzzle_hwmon_alloc example_header ())
      \<lparr>name = ''wt61p803_puzzle_7'', pwm_channel = 7, cooling_levels = [0, 64, 128, 255]\<rparr> 128) = 0
   \<and> IEI_WT61P803_PUZZLE_HWMON_MAX_PWM \<le> 7"
  by (simp add: iei_wt61p803_puzzle_set_cur_state_def iei_wt61p803_puzzle_write_pwm_channel_def
      exchange_defs canned_def example_header_def iei_wt61p803_puzzle_hwmon_alloc_def
      IEI_WT61P803_PUZZLE_HWMON_MAX_PWM_def)

text \<open>
  C6, amended. No operation rejects a channel index; each sends its request for every
  index, in range or not. The hwmon fan-speed read sends
  \<^verbatim>\<open>[HEADER_START, FAN, FAN_RPM(ch), 0]\<close>, the hwmon PWM read sends
  \<^verbatim>\<open>[HEADER_START, FAN, FAN_PWM_READ, FAN_PWM(ch), 0]\<close>, the hwmon temperature read sends
  \<^verbatim>\<open>[HEADER_START, TEMP, TEMP_ALL, 0]\<close> whatever the index, and the hwmon PWM write of
  \<open>v\<close> sends \<^verbatim>\<open>[HEADER_START, FAN, FAN_PWM_WRITE, FAN_PWM(ch), v as a byte, 0]\<close>. The
  set-state and current-state callbacks of a cooling device send the same PWM-write and
  PWM-read requests with the channel that the cooling record holds, whatever it is.
\<close>

theorem channel_not_range_checked:
  "requests (history (reached (iei_wt61p803_puzzle_read K bus s hwmon_fan attr channel))) =
     requests (history s) @
       [[IEI_WT61P803_PUZZLE_CMD_HEADER_START K, IEI_WT61P803_PUZZLE_CMD_FAN K,
         IEI_WT61P803_PUZZLE_CMD_FAN_RPM K channel, 0]]
   \<and> requests (history (reached (iei_wt61p803_puzzle_read K bus s hwmon_pwm attr channel))) =
     requests (history s) @
       [[IEI_WT61P803_PUZZLE_CMD_HEADER_START K, IEI_WT61P803_PUZZLE_CMD_FAN K,
         IEI_WT61P803_PUZZLE_CMD_FAN_PWM_READ K, IEI_WT61P803_PUZZLE_CMD_FAN_PWM K channel, 0]]
   \<and> requests (history (reached (iei_wt61p803_puzzle_read K bus s hwmon_temp attr channel))) =
     requests (history s) @
       [[IEI_WT61P803_PUZZLE_CMD_HEADER_START K, IEI_WT61P803_PUZZLE_CMD_TEMP K,
         IEI_WT61P803_PUZZLE_CMD_TEMP_ALL K, 0]]
   \<and> requests (history (snd (iei_wt61p803_puzzle_write K bus s hwmon_pwm attr channel v))) =
     requests (history s) @
       [[IEI_WT61P803_PUZZLE_CMD_HEADER_START K, IEI_WT61P803_PUZZLE_CMD_FAN K,
         IEI_WT61P803_PUZZLE_CMD_FAN_PWM_WRITE K, IEI_WT61P803_PUZZLE_CMD_FAN_PWM K channel,
         ucast v, 0]]
   \<and> requests (history (snd (iei_wt61p803_puzzle_set_cur_state K bus s cdev state))) =
     requests (history s) @
       [[IEI_WT61P803_PUZZLE_CMD_HEADER_START K, IEI_WT61P803_PUZZLE_CMD_FAN K,
         IEI_WT61P803_PUZZLE_CMD_FAN_PWM_WRITE K, IEI_WT61P803_PUZZLE_CMD_FAN_PWM K (pwm_channel cdev),
         ucast state, 0]]
   \<and> requests (history (snd (snd (iei_wt61p803_puzzle_get_cur_state K bus s cdev)))) =
     requests (history s) @
       [[IEI_WT61P803_PUZZLE_CMD_HEADER_START K, IEI_WT61P803_PUZZLE_CMD_FAN K,
         IEI_WT61P803_PUZZLE_CMD_FAN_PWM_READ K, IEI_WT61P803_PUZZLE_CMD_FAN_PWM K (pwm_channel cdev), 0]]"
proof (intro conjI)
  show "requests (history (snd (iei_wt61p803_puzzle_set_cur_state K bus s cdev state))) =
     requests (history s) @
       [[IEI_WT61P803_PUZZLE_CMD_HEADER_START K, IEI_WT61P803_PUZZLE_CMD_FAN K,
         IEI_WT61P803_PUZZLE_CMD_FAN_PWM_WRITE K, IEI_WT61P803_PUZZLE_CMD_FAN_PWM K (pwm_channel cdev),
         ucast state, 0]]"
    by (simp add: iei_wt61p803_puzzle_set_cur_state_def write_pwm_channel_requests)
  show "requests (history (snd (snd (iei_wt61p803_puzzle_get_cur_state K bus s cdev)))) =
     requests (history s) @
       [[IEI_WT61P803_PUZZLE_CMD_HEADER_START K, IEI_WT61P803_PUZZLE_CMD_FAN K,
         IEI_WT61P803_PUZZLE_CMD_FAN_PWM_READ K, IEI_WT61P803_PUZZLE_CMD_FAN_PWM K (pwm_channel cdev), 0]]"
    by (simp add: get_cur_state_is_read_pwm read_pwm_channel_requests)
  show "requests (history (reached (iei_wt61p803_puzzle_read K bus s hwmon_fan attr channel))) =
     requests (history s) @
       [[IEI_WT61P803_PUZZLE_CMD_HEADER_START K, IEI_WT61P803_PUZZLE_CMD_FAN K,
         IEI_WT61P803_PUZZLE_CMD_FAN_RPM K channel, 0]]"
    by (simp add: iei_wt61p803_puzzle_read_def reached_Inr read_fan_speed_requests)
  show "requests (history (reached (iei_wt61p803_puzzle_read K bus s hwmon_pwm attr channel))) =
     requests (history s) @
       [[IEI_WT61P803_PUZZLE_CMD_HEADER_START K, IEI_WT61P803_PUZZLE_CMD_FAN K,
         IEI_WT61P803_PUZZLE_CMD_FAN_PWM_READ K, IEI_WT61P803_PUZZLE_CMD_FAN_PWM K channel, 0]]"
    by (simp add: iei_wt61p803_puzzle_read_def reached_Inr read_pwm_channel_requests)
  show "requests (history (reached (iei_wt61p803_puzzle_read K bus s hwmon_temp attr channel))) =
     requests (history s) @
       [[IEI_WT61P803_PUZZLE_CMD_HEADER_START K, IEI_WT61P803_PUZZLE_CMD_TEMP K,
         IEI_WT61P803_PUZZLE_CMD_TEMP_ALL K, 0]]"
    by (simp add: iei_wt61p803_puzzle_read_def read_temp_sensor_requests)
  show "requests (history (snd (iei_wt61p803_puzzle_write K bus s hwmon_pwm attr channel v))) =
     requests (history s) @
       [[IEI_WT61P803_PUZZLE_CMD_HEADER_START K, IEI_WT61P803_PUZZLE_CMD_FAN K,
         IEI_WT61P803_PUZZLE_CMD_FAN_PWM_WRITE K, IEI_WT61P803_PUZZLE_CMD_FAN_PWM K channel,
         ucast v, 0]]"
    by (simp add: iei_wt61p803_puzzle_write_def write_pwm_channel_requests)
qed

subsection \<open>Cooling device\<close>

text \<open>
  C8. The maximum state is the constant 255, with return code 0. Setting state \<open>s\<close> sends
  the PWM-write request \<^verbatim>\<open>[HEADER_START, FAN, FAN_PWM_WRITE, FAN_PWM(ch), s]\<close> for the
  record's channel \<open>ch\<close>: these five command bytes, the duty being \<open>s\<close> as a byte (\<open>s\<close> modulo
  256, which is \<open>s\<close> up to the maximum state), followed by the zeroed last byte that every
  command array of the driver carries. It is the request of the hwmon write of \<open>s\<close> on
  channel \<open>ch\<close>, the two calls being equal. The current state is the PWM read of the
  record's channel, return code and stored value alike, so an error of the read is the error
  of the callback.
\<close>

theorem cooling_ops:
  "iei_wt61p803_puzzle_get_max_state cdev = (0, Some 255)
   \<and> requests (history (snd (iei_wt61p803_puzzle_set_cur_state K bus s cdev state))) =
       requests (history s) @
         [[IEI_WT61P803_PUZZLE_CMD_HEADER_START K, IEI_WT61P803_PUZZLE_CMD_FAN K,
           IEI_WT61P803_PUZZLE_CMD_FAN_PWM_WRITE K, IEI_WT61P803_PUZZLE_CMD_FAN_PWM K (pwm_channel cdev),
           ucast state, 0]]
   \<and> uint (ucast state :: u8) = uint state mod 256
   \<and> iei_wt61p803_puzzle_set_cur_state K bus s cdev state =
       iei_wt61p803_puzzle_write K bus s hwmon_pwm attr (pwm_channel cdev) state
   \<and> iei_wt61p803_puzzle_get_cur_state K bus s cdev =
       iei_wt61p803_puzzle_read_pwm_channel K bus s (pwm_channel cdev)"
proof (intro conjI)
  show "iei_wt61p803_puzzle_get_max_state cdev = (0, Some 255)"
    by (simp add: iei_wt61p803_puzzle_get_max_state_def IEI_WT61P803_PUZZLE_HWMON_MAX_PWM_VAL_def)
  show "requests (history (snd (iei_wt61p803_puzzle_set_cur_state K bus s cdev state))) =
       requests (history s) @
         [[IEI_WT61P803_PUZZLE_CMD_HEADER_START K, IEI_WT61P803_PUZZLE_CMD_FAN K,
           IEI_WT61P803_PUZZLE_CMD_FAN_PWM_WRITE K, IEI_WT61P803_PUZZLE_CMD_FAN_PWM K (pwm_channel cdev),
           ucast state, 0]]"
    by (simp add: iei_wt61p803_puzzle_set_cur_state_def write_pwm_channel_requests)
  show "uint (ucast state :: u8) = uint state mod 256"
    by (rule uint_duty)
  show "iei_wt61p803_puzzle_set_cur_state K bus s cdev state =
       iei_wt61p803_puzzle_write K bus s hwmon_pwm attr (pwm_channel cdev) state"
    by (simp add: iei_wt61p803_puzzle_set_cur_state_def iei_wt61p803_puzzle_write_def)
  show "iei_wt61p803_puzzle_get_cur_state K bus s cdev =
       iei_wt61p803_puzzle_read_pwm_channel K bus s (pwm_channel cdev)"
    by (rule get_cur_state_is_read_pwm)
qed

subsection \<open>PWM values out of range\<close>

text \<open>
  C9, as stated, fails: the write of 300 is neither rejected nor clamped. The request goes
  out with duty byte 44, which is 300 modulo 256, and the write returns 0.
\<close>

theorem write_pwm_out_of_range_counterexample:
  "fst (iei_wt61p803_puzzle_write_pwm_channel example_header (canned 0 [0x40, 0x30, 0x70])
      (iei_wt61p803_puzzle_hwmon_alloc example_header ()) 0 300) = 0
   \<and> requests (history (snd (iei_wt61p803_puzzle_write_pwm_channel example_header
        (canned 0 [0x40, 0x30, 0x70]) (iei_wt61p803_puzzle_hwmon_alloc example_header ()) 0 300)))
     = [[0x40, 0x46, 0x57, 0x30, 44, 0]]
   \<and> (44 :: int) = 300 mod 256"
  by (simp add: iei_wt61p803_puzzle_write_pwm_channel_def exchange_defs canned_def
      example_header_def iei_wt61p803_puzzle_hwmon_alloc_def)

text \<open>
  C9, amended. For every value \<open>v\<close>, inside \<open>[0, 255]\<close> or not, the PWM write sends its
  request, and the duty byte of the request is \<open>v\<close> modulo 256.
\<close>

theorem write_pwm_truncates:
  "requests (history (snd (iei_wt61p803_puzzle_write_pwm_channel K bus s channel v))) =
     requests (history s) @
       [[IEI_WT61P803_PUZZLE_CMD_HEADER_START K, IEI_WT61P803_PUZZLE_CMD_FAN K,
         IEI_WT61P803_PUZZLE_CMD_FAN_PWM_WRITE K, IEI_WT61P803_PUZZLE_CMD_FAN_PWM K channel,
         ucast v, 0]]
   \<and> uint (ucast v :: u8) = sint v mod 256"
  by (simp add: write_pwm_channel_requests duty_byte_signed)

subsection \<open>The write callback\<close>

text \<open>
  C10. The write callback is the PWM write on the given channel and value, whatever the
  sensor kind and the attribute: called with kind temp or fan it sends the PWM-write request.
  For these two kinds the visibility function only ever answers 0444 or 0, neither of which
  allows a write.
\<close>

theorem write_ignores_kind:
  "iei_wt61p803_puzzle_write K bus s type attr channel v =
     iei_wt61p803_puzzle_write_pwm_channel K bus s channel v
   \<and> requests (history (snd (iei_wt61p803_puzzle_write K bus s hwmon_temp attr channel v))) =
       requests (history s) @
         [[IEI_WT61P803_PUZZLE_CMD_HEADER_START K, IEI_WT61P803_PUZZLE_CMD_FAN K,
           IEI_WT61P803_PUZZLE_CMD_FAN_PWM_WRITE K, IEI_WT61P803_PUZZLE_CMD_FAN_PWM K channel,
           ucast v, 0]]
   \<and> requests (history (snd (iei_wt61p803_puzzle_write K bus s hwmon_fan attr channel v))) =
       requests (history s) @
         [[IEI_WT61P803_PUZZLE_CMD_HEADER_START K, IEI_WT61P803_PUZZLE_CMD_FAN K,
           IEI_WT61P803_PUZZLE_CMD_FAN_PWM_WRITE K, IEI_WT61P803_PUZZLE_CMD_FAN_PWM K channel,
           ucast v, 0]]
   \<and> iei_wt61p803_puzzle_is_visible H d hwmon_temp attr' channel' \<in> {Some mode_0444, Some 0}
   \<and> iei_wt61p803_puzzle_is_visible H d hwmon_fan attr' channel' \<in> {Some mode_0444, Some 0}"
  by (simp add: iei_wt61p803_puzzle_write_def write_pwm_channel_requests is_visible_fan_temp)

end
